theory Spec2Isabelle
  imports Main "HOL-Library.Sublist"
begin

section \<open>JavaScript values\<close>

text \<open>
  JSON data as the connector exchanges it with the backend. A JavaScript object with string
  keys is a map from keys to values; a key that is missing, or whose value is
  \<^verbatim>\<open>undefined\<close>, is \<open>None\<close> (axios drops such keys from query strings and JSON bodies
  alike). Nested objects inside a \<open>json\<close> value are association lists.
\<close>

datatype json =
    JNull
  | JBool bool
  | JNum int
  | JStr string
  | JArr "json list"
  | JObj "(string \<times> json) list"

type_synonym obj = "string \<rightharpoonup> json"

text \<open>Truthiness of an optional string: \<^verbatim>\<open>undefined\<close> and \<^verbatim>\<open>''\<close> are falsy.\<close>

definition truthy :: "string option \<Rightarrow> bool" where
  "truthy s = (case s of None \<Rightarrow> False | Some v \<Rightarrow> v \<noteq> [])"

text \<open>Truthiness of an optional boolean.\<close>

definition truthy_bool :: "bool option \<Rightarrow> bool" where
  "truthy_bool b = (case b of None \<Rightarrow> False | Some v \<Rightarrow> v)"

text \<open>An optional string inside a template literal: \<^verbatim>\<open>`${x}`\<close>.\<close>

definition template :: "string option \<Rightarrow> string" where
  "template s = (case s of None \<Rightarrow> ''undefined'' | Some v \<Rightarrow> v)"

text \<open>
  The nullish coalescing operator \<^verbatim>\<open>a ?? b\<close>: the left operand unless it is
  \<^verbatim>\<open>undefined\<close> or \<^verbatim>\<open>null\<close>.
\<close>

definition nullish :: "json option \<Rightarrow> bool" where
  "nullish v = (v = None \<or> v = Some JNull)"

definition coalesce :: "json option \<Rightarrow> json option \<Rightarrow> json option" where
  "coalesce a b = (if nullish a then b else a)"

text \<open>Object spread of an optional object: \<^verbatim>\<open>{...x}\<close> copies nothing when \<^verbatim>\<open>x\<close> is undefined.\<close>

definition spread :: "('k \<rightharpoonup> 'v) option \<Rightarrow> ('k \<rightharpoonup> 'v)" where
  "spread m = (case m of None \<Rightarrow> Map.empty | Some f \<Rightarrow> f)"

text \<open>
  The two built-ins of the host that the connector calls, \<^verbatim>\<open>JSON.stringify\<close> and
  \<^verbatim>\<open>encodeURIComponent\<close>, are parameters of the model: every theorem holds whatever
  they compute.
\<close>

record host =
  JSON_stringify :: "json \<Rightarrow> string"
  encodeURIComponent :: "string \<Rightarrow> string"

text \<open>
  A reference host for concrete evaluations: integers in decimal, strings quoted with
  \<^verbatim>\<open>"\<close> and \<^verbatim>\<open>\\<close> escaped, and percent-encoding of every byte outside the unreserved set.
\<close>

fun digits :: "nat \<Rightarrow> string" where
  "digits n =
     (if n < 10 then [''0123456789'' ! n]
      else digits (n div 10) @ [''0123456789'' ! (n mod 10)])"

fun join_commas :: "string list \<Rightarrow> string" where
  "join_commas [] = []"
| "join_commas [x] = x"
| "join_commas (x # y # ys) = x @ '','' @ join_commas (y # ys)"

definition quote :: "string \<Rightarrow> string" where
  "quote s =
     [CHR 0x22] @
     concat (map (\<lambda>c. if c = CHR 0x22 \<or> c = CHR 0x5C then [CHR 0x5C, c] else [c]) s) @
     [CHR 0x22]"

fun stringify :: "json \<Rightarrow> string" where
  "stringify JNull = ''null''"
| "stringify (JBool b) = (if b then ''true'' else ''false'')"
| "stringify (JNum n) = (if n < 0 then ''-'' @ digits (nat (- n)) else digits (nat n))"
| "stringify (JStr s) = quote s"
| "stringify (JArr xs) = ''['' @ join_commas (map stringify xs) @ '']''"
| "stringify (JObj kvs) =
     ''{'' @ join_commas (map (\<lambda>(k, v). quote k @ '':'' @ stringify v) kvs) @ ''}''"

definition unreserved :: "char \<Rightarrow> bool" where
  "unreserved c =
     (c \<in> set ''ABCDEFGHIJKLMNOPQRSTUVWXYZabcdefghijklmnopqrstuvwxyz0123456789-_.!~*()''
      \<or> c = CHR 0x27)"

definition percent_encode :: "string \<Rightarrow> string" where
  "percent_encode s =
     concat (map (\<lambda>c. if unreserved c then [c]
                       else [CHR ''%'', ''0123456789ABCDEF'' ! (of_char c div 16),
                             ''0123456789ABCDEF'' ! (of_char c mod 16)]) s)"

definition reference_host :: host where
  "reference_host = \<lparr>JSON_stringify = stringify, encodeURIComponent = percent_encode\<rparr>"

section \<open>Errors\<close>

text \<open>
  Everything a call can throw, or reject its promise with. \<open>Thrown\<close> is the object literal
  that the catch handlers of the document and upload clients throw; \<open>AxiosError\<close> is a
  rejection of the HTTP transport that reaches the caller unchanged, with the response it
  carries, if any.
\<close>

record response =
  status :: nat
  statusText :: string
  data :: obj
  set_cookie :: "string list option"

datatype thrown =
    JsError string
  | ReferenceError string
  | TypeError string
  | AxiosError "response option"
  | Thrown obj

section \<open>HTTP requests and the transport\<close>

datatype http_method = GET | POST | PUT

text \<open>
  A multipart form is the list of its entries in the order of the \<^verbatim>\<open>append\<close> calls. An
  entry is a file with the file name given to \<^verbatim>\<open>append\<close>, or any other value.
\<close>

record File =
  file_name :: string
  file_content :: string

datatype form_value = FileValue File string | Value json

datatype payload =
    NoData
  | JsonData json
  | FormData "(string \<times> form_value) list"

record http_request =
  req_method :: http_method
  req_url :: string
  req_data :: payload
  req_params :: "obj option"
  req_headers :: "string \<rightharpoonup> string"

text \<open>
  What the transport answers to a request: the promise resolves with a response, or it is
  rejected with an error that carries a response (axios rejects statuses outside 2xx by
  default) or none (the request never got an answer).
\<close>

datatype outcome = Resolved response | Rejected "response option"

text \<open>
  The list call is declared \<^verbatim>\<open>get<{ data: T[] }>\<close>: when it resolves, the \<^verbatim>\<open>data\<close>
  member of the body is an array of \<open>'d\<close>.
\<close>

datatype 'd list_outcome = ListResolved "'d list" | ListRejected "response option"

text \<open>
  An axios instance as the clients use it: what it answers to each request. Every operation
  returns the requests it issued, in order, next to its result.
\<close>

record 'd AxiosInstance =
  send :: "http_request \<Rightarrow> outcome"
  send_list :: "http_request \<Rightarrow> 'd list_outcome"

section \<open>Header builder and client factory (axios-config.ts)\<close>

text \<open>
  The ambient browser context: the global \<^verbatim>\<open>window\<close>, absent outside a browser (where
  \<^verbatim>\<open>typeof window\<close> is \<^verbatim>\<open>'undefined'\<close> and reading \<^verbatim>\<open>window.csrf_token\<close> throws a
  ReferenceError), with \<^verbatim>\<open>window.location.origin\<close>, \<^verbatim>\<open>window.location.hostname\<close> and
  \<^verbatim>\<open>window.csrf_token\<close>; and whether the global \<^verbatim>\<open>document\<close> is defined.
\<close>

record browser_window =
  origin :: string
  hostname :: string
  csrf_token :: "string option"

record env =
  window :: "browser_window option"
  document :: bool

text \<open>The configuration that \<^verbatim>\<open>axios.create\<close> receives.\<close>

record axios_config =
  baseURL :: string
  headers :: "string \<rightharpoonup> string"
  withCredentials :: "bool option"

definition getCommonHeaders ::
  "env \<Rightarrow> string \<Rightarrow> (string \<rightharpoonup> string) option \<Rightarrow> thrown + (string \<rightharpoonup> string)" where
  "getCommonHeaders e base customHeaders =
     (let hs = [''Accept'' \<mapsto> ''application/json'',
                ''Content-Type'' \<mapsto> ''application/json; charset=utf-8''] ++ spread customHeaders;
          hs1 = (case window e of
                   Some w \<Rightarrow>
                     if document e \<and> base \<noteq> [] \<and> base = origin w
                     then hs(''X-Frappe-Site-Name'' \<mapsto> hostname w) else hs
                 | None \<Rightarrow> hs)
      in case window e of
           None \<Rightarrow> Inl (ReferenceError ''window is not defined'')
         | Some w \<Rightarrow>
             if truthy (csrf_token w) \<and> csrf_token w \<noteq> Some ''{{ csrf_token }}''
             then Inr (hs1(''X-Frappe-CSRF-Token'' \<mapsto> template (csrf_token w)))
             else Inr hs1)"

definition getInstanceWithKeys ::
  "env \<Rightarrow> string \<Rightarrow> string option \<Rightarrow> string option \<Rightarrow> (string \<rightharpoonup> string) option
     \<Rightarrow> thrown + axios_config" where
  "getInstanceWithKeys e base key secret hdrs =
     (case getCommonHeaders e base hdrs of
        Inl err \<Rightarrow> Inl err
      | Inr common \<Rightarrow>
          Inr \<lparr>baseURL = base,
               headers = [''Authorization'' \<mapsto> ''token '' @ template key @ '':'' @ template secret]
                         ++ common,
               withCredentials = Some True\<rparr>)"

text \<open>
  The login call of the factory. \<open>post\<close> is the global \<^verbatim>\<open>axios.post\<close>. The headers of the
  request are built before the request is sent, so a failure of the header builder leaves
  the network untouched.
\<close>

definition getInstanceWithCredentials ::
  "env \<Rightarrow> (http_request \<Rightarrow> outcome) \<Rightarrow> string \<Rightarrow> string option \<Rightarrow> string option
     \<Rightarrow> (string \<rightharpoonup> string) option \<Rightarrow> http_request list \<times> (thrown + axios_config)" where
  "getInstanceWithCredentials e post base usr pwd hdrs =
     (case getCommonHeaders e base hdrs of
        Inl err \<Rightarrow> ([], Inl err)
      | Inr common \<Rightarrow>
          let req = \<lparr>req_method = POST,
                     req_url = base @ ''/api/method/login'',
                     req_data = JsonData (JObj
                       ((case usr of None \<Rightarrow> [] | Some u \<Rightarrow> [(''usr'', JStr u)]) @
                        (case pwd of None \<Rightarrow> [] | Some p \<Rightarrow> [(''pwd'', JStr p)]))),
                     req_params = None,
                     req_headers = common\<rparr>
          in case post req of
               Rejected r \<Rightarrow> ([req], Inl (AxiosError r))
             | Resolved res \<Rightarrow>
                 if status res = 200 then
                   (case (case set_cookie res of
                            None \<Rightarrow> None
                          | Some cookies \<Rightarrow> find (prefix ''sid='') cookies) of
                      Some sidCookie \<Rightarrow>
                        (case getCommonHeaders e base hdrs of
                           Inl err \<Rightarrow> ([req], Inl err)
                         | Inr common2 \<Rightarrow>
                             ([req], Inr \<lparr>baseURL = base,
                                          headers = [''Cookie'' \<mapsto> sidCookie] ++ common2,
                                          withCredentials = None\<rparr>))
                    | None \<Rightarrow> ([req], Inl (JsError (''Failed to login to '' @ base))))
                 else ([req], Inl (JsError (''Failed to login to '' @ base))))"

section \<open>The facade (class Frappe)\<close>

text \<open>
  The options and the object built from them. \<open>extra_headers\<close> is the field
  \<^verbatim>\<open>headers\<close> of the source; \<open>client\<close> is its field \<^verbatim>\<open>instance\<close>, \<open>None\<close> while it
  holds the placeholder \<^verbatim>\<open>{}\<close> of the constructor.
\<close>

record FrappeOptions =
  url :: string
  username :: "string option"
  password :: "string option"
  apiKey :: "string option"
  secretKey :: "string option"
  extra_headers :: "(string \<rightharpoonup> string) option"

record Frappe = FrappeOptions +
  client :: "axios_config option"

definition Frappe_constructor :: "env \<Rightarrow> FrappeOptions \<Rightarrow> thrown + Frappe" where
  "Frappe_constructor e options =
     (if truthy (apiKey options) \<and> truthy (secretKey options) then
        (case getInstanceWithKeys e (url options) (apiKey options) (secretKey options)
                (extra_headers options) of
           Inl err \<Rightarrow> Inl err
         | Inr c \<Rightarrow> Inr (FrappeOptions.extend options (Frappe.fields (Some c))))
      else Inr (FrappeOptions.extend options (Frappe.fields None)))"

definition login ::
  "env \<Rightarrow> (http_request \<Rightarrow> outcome) \<Rightarrow> Frappe \<Rightarrow> http_request list \<times> (thrown + Frappe)" where
  "login e post f =
     (if truthy (username f) \<and> truthy (password f) then
        (case getInstanceWithCredentials e post (url f) (username f) (password f)
                (extra_headers f) of
           (reqs, Inl err) \<Rightarrow> (reqs, Inl err)
         | (reqs, Inr c) \<Rightarrow> (reqs, Inr (f\<lparr>client := Some c\<rparr>)))
      else if truthy (apiKey f) \<and> truthy (secretKey f) then
        ([], Inl (JsError ''You don't need to login if you have API key and secret key''))
      else
        ([], Inl (JsError ''You need to provide username and password or API key and secret key'')))"

section \<open>Document operations (class FrappeDB)\<close>

text \<open>
  The catch handlers. Each reads \<^verbatim>\<open>error.response\<close>; when the rejection carries no
  response that read of \<^verbatim>\<open>.data\<close> on \<^verbatim>\<open>undefined\<close> throws a TypeError inside the handler,
  which becomes the rejection of the call. \<open>catch_fixed\<close> is the handler whose message is a
  constant, \<open>catch_remote\<close> the one that prefers the remote \<^verbatim>\<open>message\<close>.
\<close>

definition exception_of :: "obj \<Rightarrow> json" where
  "exception_of body =
     (case coalesce (coalesce (body ''exception'') (body ''exc_type'')) (Some (JStr '''')) of
        Some v \<Rightarrow> v
      | None \<Rightarrow> JStr '''')"

definition catch_fixed :: "string \<Rightarrow> response option \<Rightarrow> thrown" where
  "catch_fixed msg r =
     (case r of
        None \<Rightarrow> TypeError ''Cannot read properties of undefined (reading 'data')''
      | Some res \<Rightarrow>
          Thrown (data res ++
            [''httpStatus'' \<mapsto> JNum (int (status res)),
             ''httpStatusText'' \<mapsto> JStr (statusText res),
             ''message'' \<mapsto> JStr msg,
             ''exception'' \<mapsto> exception_of (data res)]))"

definition catch_remote :: "string \<Rightarrow> response option \<Rightarrow> thrown" where
  "catch_remote msg r =
     (case r of
        None \<Rightarrow> TypeError ''Cannot read properties of undefined (reading 'data')''
      | Some res \<Rightarrow>
          Thrown (data res ++
            [''httpStatus'' \<mapsto> JNum (int (status res)),
             ''httpStatusText'' \<mapsto> JStr (statusText res),
             ''message'' \<mapsto>
                (case coalesce (data res ''message'') (Some (JStr msg)) of
                   Some v \<Rightarrow> v | None \<Rightarrow> JStr msg),
             ''exception'' \<mapsto> exception_of (data res)]))"

text \<open>A request with nothing but a method and a URL.\<close>

definition request :: "http_method \<Rightarrow> string \<Rightarrow> http_request" where
  "request m u =
     \<lparr>req_method = m, req_url = u, req_data = NoData, req_params = None,
      req_headers = Map.empty\<rparr>"

definition getDoc ::
  "host \<Rightarrow> 'd AxiosInstance \<Rightarrow> string \<Rightarrow> string option
     \<Rightarrow> http_request list \<times> (thrown + json option)" where
  "getDoc js ax dt dn =
     (let docname = (case dn of None \<Rightarrow> '''' | Some n \<Rightarrow> n);
          req = request GET (''/api/resource/'' @ dt @ ''/'' @ encodeURIComponent js docname)
      in ([req],
          case send ax req of
            Resolved res \<Rightarrow> Inr (data res ''data'')
          | Rejected r \<Rightarrow> Inl (catch_fixed ''There was an error while fetching the document.'' r)))"

datatype sort_order = Asc | Desc

record OrderBy =
  field :: string
  order :: "sort_order option"

text \<open>
  The arguments of \<open>getLastDoc\<close> are spread over a default, and a spread copies every own
  property of an object, also one whose value is \<^verbatim>\<open>undefined\<close>. So each of their keys is
  \<open>Missing\<close> when the object has no such property, and \<open>Own v\<close> when it has one, \<open>v\<close>
  being \<open>None\<close> for the value \<^verbatim>\<open>undefined\<close>.
\<close>

datatype 'a property = Missing | Own "'a option"

record GetLastDocArgs =
  filters :: "json list property"
  orFilters :: "json list property"
  orderBy :: "OrderBy property"

text \<open>\<^verbatim>\<open>{...d, ...p}\<close> at one key, and the value read from a key.\<close>

definition spread_over :: "'a property \<Rightarrow> 'a property \<Rightarrow> 'a property" where
  "spread_over d p = (case p of Missing \<Rightarrow> d | Own v \<Rightarrow> Own v)"

definition read :: "'a property \<Rightarrow> 'a option" where
  "read p = (case p of Missing \<Rightarrow> None | Own v \<Rightarrow> v)"

text \<open>
  The arguments of \<open>getDocList\<close> are only read, so a key that is missing and one that holds
  \<^verbatim>\<open>undefined\<close> are both \<open>None\<close>. From here on \<open>filters\<close>, \<open>orFilters\<close> and \<open>orderBy\<close> are
  the fields of these arguments; those of \<open>GetLastDocArgs\<close> are written with its name.
\<close>

record GetDocListArgs =
  filters :: "json list option"
  orFilters :: "json list option"
  orderBy :: "OrderBy option"
  fields_arg :: "string list option"
  limit :: "int option"
  limit_start :: "int option"
  groupBy :: "string option"
  asDict :: "bool option"

definition orderByString :: "OrderBy option \<Rightarrow> string" where
  "orderByString ob =
     (case ob of
        None \<Rightarrow> ''''
      | Some b \<Rightarrow>
          field b @ '' '' @
          (case order b of None \<Rightarrow> ''asc'' | Some Asc \<Rightarrow> ''asc'' | Some Desc \<Rightarrow> ''desc''))"

text \<open>The \<^verbatim>\<open>params\<close> object of the list call; keys whose value is undefined are not in the map.\<close>

definition list_params :: "host \<Rightarrow> GetDocListArgs option \<Rightarrow> obj" where
  "list_params js args =
     (case args of
        None \<Rightarrow> Map.empty
      | Some a \<Rightarrow>
          Map.empty
            (''fields'' :=
               map_option (\<lambda>fs. JStr (JSON_stringify js (JArr (map JStr fs)))) (fields_arg a),
             ''filters'' := map_option (\<lambda>fs. JStr (JSON_stringify js (JArr fs))) (filters a),
             ''or_filters'' := map_option (\<lambda>fs. JStr (JSON_stringify js (JArr fs))) (orFilters a),
             ''order_by'' := Some (JStr (orderByString (orderBy a))),
             ''group_by'' := map_option JStr (groupBy a),
             ''limit'' := map_option JNum (limit a),
             ''limit_start'' := map_option JNum (limit_start a),
             ''as_dict'' := Some (JBool (case asDict a of None \<Rightarrow> True | Some b \<Rightarrow> b))))"

definition getDocList ::
  "host \<Rightarrow> 'd AxiosInstance \<Rightarrow> string \<Rightarrow> GetDocListArgs option
     \<Rightarrow> http_request list \<times> (thrown + 'd list)" where
  "getDocList js ax dt args =
     (let params = list_params js args;
          req = (request GET (''/api/resource/'' @ dt))\<lparr>req_params := Some params\<rparr>
      in ([req],
          case send_list ax req of
            ListResolved ds \<Rightarrow> Inr ds
          | ListRejected r \<Rightarrow> Inl (catch_fixed ''There was an error while fetching the documents.'' r)))"

text \<open>
  A document to create or update in bulk: its \<^verbatim>\<open>doctype\<close> and its other fields.
\<close>

record FrappeDocParams =
  doc_doctype :: string
  doc_values :: "(string \<times> json) list"

definition doc_json :: "FrappeDocParams \<Rightarrow> json" where
  "doc_json d = JObj ((''doctype'', JStr (doc_doctype d)) # doc_values d)"

text \<open>The remote-procedure calls post \<^verbatim>\<open>{ params }\<close> to the empty path.\<close>

definition rpc :: "(string \<times> json) list \<Rightarrow> http_request" where
  "rpc params = (request POST '''')\<lparr>req_data := JsonData (JObj [(''params'', JObj params)])\<rparr>"

definition createDoc ::
  "'d AxiosInstance \<Rightarrow> FrappeDocParams \<Rightarrow> http_request list \<times> (thrown + json option)" where
  "createDoc ax d =
     (let req = (request POST (''/api/resource/'' @ doc_doctype d))
                  \<lparr>req_data := JsonData (doc_json d)\<rparr>
      in ([req],
          case send ax req of
            Resolved res \<Rightarrow> Inr (data res ''data'')
          | Rejected r \<Rightarrow> Inl (catch_remote ''There was an error while creating the document.'' r)))"

definition createManyDocs ::
  "'d AxiosInstance \<Rightarrow> FrappeDocParams list \<Rightarrow> http_request list \<times> (thrown + json option)" where
  "createManyDocs ax docs =
     (let req = rpc [(''cmd'', JStr ''frappe.client.insert_many''),
                     (''docs'', JArr (map doc_json docs))]
      in ([req],
          case send ax req of
            Resolved res \<Rightarrow> Inr (data res ''data'')
          | Rejected r \<Rightarrow> Inl (catch_remote ''There was an error while creating the documents.'' r)))"

text \<open>
  In \<open>updateDoc\<close> the document name may be \<^verbatim>\<open>null\<close> (\<open>None\<close>): a falsy name goes into the
  template literal as it is, so \<^verbatim>\<open>null\<close> becomes the path segment \<^verbatim>\<open>null\<close>.
\<close>

definition updateDoc ::
  "host \<Rightarrow> 'd AxiosInstance \<Rightarrow> string \<Rightarrow> string option \<Rightarrow> (string \<times> json) list
     \<Rightarrow> http_request list \<times> (thrown + json option)" where
  "updateDoc js ax dt dn val =
     (let seg = (case dn of
                   None \<Rightarrow> ''null''
                 | Some n \<Rightarrow> if n \<noteq> [] then encodeURIComponent js n else n);
          req = (request PUT (''/api/resource/'' @ dt @ ''/'' @ seg))
                  \<lparr>req_data := JsonData (JObj val)\<rparr>
      in ([req],
          case send ax req of
            Resolved res \<Rightarrow> Inr (data res ''data'')
          | Rejected r \<Rightarrow> Inl (catch_remote ''There was an error while updating the document.'' r)))"

definition updateManyDocs ::
  "'d AxiosInstance \<Rightarrow> FrappeDocParams list \<Rightarrow> http_request list \<times> (thrown + json option)" where
  "updateManyDocs ax docs =
     (let req = rpc [(''cmd'', JStr ''frappe.client.bulk_update''),
                     (''docs'', JArr (map doc_json docs))]
      in ([req],
          case send ax req of
            Resolved res \<Rightarrow> Inr (data res ''data'')
          | Rejected r \<Rightarrow> Inl (catch_remote ''There was an error while updating the documents.'' r)))"

definition submitDoc ::
  "'d AxiosInstance \<Rightarrow> string \<Rightarrow> string \<Rightarrow> http_request list \<times> (thrown + json option)" where
  "submitDoc ax dt dn =
     (let req = rpc [(''cmd'', JStr ''frappe.client.submit''),
                     (''doc'', JObj [(''doctype'', JStr dt), (''name'', JStr dn)])]
      in ([req],
          case send ax req of
            Resolved res \<Rightarrow> Inr (data res ''data'')
          | Rejected r \<Rightarrow> Inl (catch_remote ''There was an error while submitting the document.'' r)))"

definition cancelDoc ::
  "'d AxiosInstance \<Rightarrow> string \<Rightarrow> string \<Rightarrow> http_request list \<times> (thrown + json option)" where
  "cancelDoc ax dt dn =
     (let req = rpc [(''cmd'', JStr ''frappe.client.cancel''),
                     (''doctype'', JStr dt), (''name'', JStr dn)]
      in ([req],
          case send ax req of
            Resolved res \<Rightarrow> Inr (data res ''data'')
          | Rejected r \<Rightarrow> Inl (catch_remote ''There was an error while cancelling the document.'' r)))"

definition renameDoc ::
  "'d AxiosInstance \<Rightarrow> string \<Rightarrow> string \<Rightarrow> string
     \<Rightarrow> http_request list \<times> (thrown + json option)" where
  "renameDoc ax dt old_name new_name =
     (let req = rpc [(''cmd'', JStr ''frappe.client.rename_doc''),
                     (''doctype'', JStr dt), (''old_name'', JStr old_name),
                     (''new_name'', JStr new_name)]
      in ([req],
          case send ax req of
            Resolved res \<Rightarrow> Inr (data res ''data'')
          | Rejected r \<Rightarrow> Inl (catch_remote ''There was an error while renaming the document.'' r)))"

text \<open>
  In \<open>deleteDoc\<close> the name is optional and may be \<^verbatim>\<open>null\<close>: \<open>None\<close> is \<^verbatim>\<open>undefined\<close>,
  \<open>Some None\<close> is \<^verbatim>\<open>null\<close>. The call resolves with the whole body.
\<close>

definition deleteDoc ::
  "'d AxiosInstance \<Rightarrow> string \<Rightarrow> string option option
     \<Rightarrow> http_request list \<times> (thrown + obj)" where
  "deleteDoc ax dt dn =
     (let req = (request POST '''')
                  \<lparr>req_data := JsonData (JObj
                     ([(''cmd'', JStr ''frappe.client.delete''), (''doctype'', JStr dt)] @
                      (case dn of
                         None \<Rightarrow> []
                       | Some None \<Rightarrow> [(''name'', JNull)]
                       | Some (Some n) \<Rightarrow> [(''name'', JStr n)])))\<rparr>
      in ([req],
          case send ax req of
            Resolved res \<Rightarrow> Inr (data res)
          | Rejected r \<Rightarrow> Inl (catch_fixed ''There was an error while deleting the document.'' r)))"

text \<open>The \<^verbatim>\<open>params\<close> object of the count call.\<close>

definition count_params :: "host \<Rightarrow> string \<Rightarrow> json list option \<Rightarrow> bool option \<Rightarrow> bool option \<Rightarrow> obj" where
  "count_params js dt fs cache debug =
     (let params = [''cmd'' \<mapsto> JStr ''frappe.client.get_count'',
                    ''doctype'' \<mapsto> JStr dt,
                    ''filters'' \<mapsto> JArr []];
          params1 = (if truthy_bool cache then params(''cache'' \<mapsto> JBool True) else params);
          params2 = (if truthy_bool debug then params1(''debug'' \<mapsto> JBool True) else params1)
      in case fs of
           None \<Rightarrow> params2
         | Some f \<Rightarrow> params2(''filters'' \<mapsto> JStr (JSON_stringify js (JArr f))))"

definition getCount ::
  "host \<Rightarrow> 'd AxiosInstance \<Rightarrow> string \<Rightarrow> json list option \<Rightarrow> bool option \<Rightarrow> bool option
     \<Rightarrow> http_request list \<times> (thrown + json option)" where
  "getCount js ax dt fs cache debug =
     (let req = (request GET '''')\<lparr>req_params := Some (count_params js dt fs cache debug)\<rparr>
      in ([req],
          case send ax req of
            Resolved res \<Rightarrow> Inr (data res ''message'')
          | Rejected r \<Rightarrow> Inl (catch_fixed ''There was an error while getting the count.'' r)))"

text \<open>
  \<open>getLastDoc\<close> calls the list operation at the item type \<^verbatim>\<open>{ name: string }\<close>. The
  caller's arguments, when given, are spread over the default order; then the query
  arguments are spread into the arguments of the list call, where limit and fields are set
  last.
\<close>

record name_item =
  name :: string

definition getLastDoc ::
  "host \<Rightarrow> name_item AxiosInstance \<Rightarrow> string \<Rightarrow> GetLastDocArgs option
     \<Rightarrow> http_request list \<times> (thrown + json option)" where
  "getLastDoc js ax dt args =
     (let defaults = \<lparr>GetLastDocArgs.filters = Missing, GetLastDocArgs.orFilters = Missing,
                       GetLastDocArgs.orderBy =
                         Own (Some \<lparr>field = ''creation'', order = Some Desc\<rparr>)\<rparr>;
          queryArgs = (case args of
                         None \<Rightarrow> defaults
                       | Some a \<Rightarrow>
                           \<lparr>GetLastDocArgs.filters =
                              spread_over (GetLastDocArgs.filters defaults)
                                (GetLastDocArgs.filters a),
                            GetLastDocArgs.orFilters =
                              spread_over (GetLastDocArgs.orFilters defaults)
                                (GetLastDocArgs.orFilters a),
                            GetLastDocArgs.orderBy =
                              spread_over (GetLastDocArgs.orderBy defaults)
                                (GetLastDocArgs.orderBy a)\<rparr>)
      in case getDocList js ax dt
                (Some \<lparr>filters = read (GetLastDocArgs.filters queryArgs),
                        orFilters = read (GetLastDocArgs.orFilters queryArgs),
                        orderBy = read (GetLastDocArgs.orderBy queryArgs),
                        fields_arg = Some [''name''], limit = Some 1, limit_start = None,
                        groupBy = None, asDict = None\<rparr>) of
           (reqs, Inl err) \<Rightarrow> (reqs, Inl err)
         | (reqs, Inr getDocLists) \<Rightarrow>
             (case getDocLists of
                d # _ \<Rightarrow>
                  (case getDoc js ax dt (Some (name d)) of
                     (reqs2, r) \<Rightarrow> (reqs @ reqs2, r))
              | [] \<Rightarrow> (reqs, Inr (Some (JObj [])))))"

section \<open>File upload (class FrappeUpload)\<close>

text \<open>
  The arguments of an upload. \<open>otherData\<close> is the list of the own properties of the object,
  in the order in which \<^verbatim>\<open>Object.keys\<close> enumerates them.
\<close>

record FileArgs =
  isPrivate :: "bool option"
  folder :: "string option"
  file_url :: "string option"
  doctype :: "string option"
  docname :: "string option"
  fieldname :: "string option"
  otherData :: "(string \<times> json) list option"

text \<open>\<^verbatim>\<open>if (v) formData.append(k, v)\<close> for an optional string.\<close>

definition append_if :: "string \<Rightarrow> string option \<Rightarrow> (string \<times> form_value) list" where
  "append_if k v =
     (case v of None \<Rightarrow> [] | Some s \<Rightarrow> if s \<noteq> [] then [(k, Value (JStr s))] else [])"

text \<open>
  The form that \<open>upload\<close> builds. The file is \<open>None\<close> when the caller passes
  \<^verbatim>\<open>undefined\<close> or \<^verbatim>\<open>null\<close>, the values for which the guard \<^verbatim>\<open>if (file)\<close> of the first
  \<^verbatim>\<open>append\<close> fails; a \<^verbatim>\<open>File\<close> object is truthy.
\<close>

definition upload_form :: "File option \<Rightarrow> FileArgs \<Rightarrow> (string \<times> form_value) list" where
  "upload_form file args =
     (case file of None \<Rightarrow> [] | Some f \<Rightarrow> [(''file'', FileValue f (file_name f))]) @
     (if truthy_bool (isPrivate args) then [(''is_private'', Value (JStr ''1''))] else []) @
     append_if ''folder'' (folder args) @
     append_if ''file_url'' (file_url args) @
     (if truthy (doctype args) \<and> truthy (docname args) then
        append_if ''doctype'' (doctype args) @
        append_if ''docname'' (docname args) @
        append_if ''fieldname'' (fieldname args)
      else []) @
     (case otherData args of
        None \<Rightarrow> []
      | Some other \<Rightarrow> map (\<lambda>(key, v). (key, Value v)) other)"

definition catch_upload :: "response option \<Rightarrow> thrown" where
  "catch_upload r =
     (case r of
        None \<Rightarrow> TypeError ''Cannot read properties of undefined (reading 'data')''
      | Some res \<Rightarrow>
          Thrown (data res ++
            [''httpStatus'' \<mapsto> JNum (int (status res)),
             ''httpStatusText'' \<mapsto> JStr (statusText res),
             ''message'' \<mapsto>
                (case coalesce (data res ''message'')
                        (Some (JStr ''There was an error while uploading the file.'')) of
                   Some v \<Rightarrow> v
                 | None \<Rightarrow> JStr ''There was an error while uploading the file.''),
             ''exception'' \<mapsto>
                (case coalesce (data res ''exception'') (Some (JStr '''')) of
                   Some v \<Rightarrow> v
                 | None \<Rightarrow> JStr '''')]))"

text \<open>
  The upload itself; \<open>apiPath\<close> defaults to \<^verbatim>\<open>upload_file\<close>. The progress callback only
  observes the transfer and is left out.
\<close>

definition upload ::
  "'d AxiosInstance \<Rightarrow> File option \<Rightarrow> FileArgs \<Rightarrow> string option
     \<Rightarrow> http_request list \<times> (thrown + response)" where
  "upload ax file args apiPath =
     (let path = (case apiPath of None \<Rightarrow> ''upload_file'' | Some p \<Rightarrow> p);
          req = \<lparr>req_method = POST,
                 req_url = ''/api/method/'' @ path,
                 req_data = FormData (upload_form file args),
                 req_params = None,
                 req_headers = [''Content-Type'' \<mapsto> ''multipart/form-data'']\<rparr>
      in ([req],
          case send ax req of
            Resolved res \<Rightarrow> Inr res
          | Rejected r \<Rightarrow> Inl (catch_upload r)))"

section \<open>The normalized error, in the words of the specification\<close>

text \<open>
  A field of the remote body is present when it is neither undefined nor \<^verbatim>\<open>null\<close>. The
  exception of a normalized error is the remote \<^verbatim>\<open>exception\<close> field when present, else
  \<^verbatim>\<open>exc_type\<close>, else the empty string; the upload client has no \<^verbatim>\<open>exc_type\<close> fallback.
\<close>

definition present :: "json option \<Rightarrow> bool" where
  "present v = (case v of None \<Rightarrow> False | Some x \<Rightarrow> x \<noteq> JNull)"

definition spec_exception :: "obj \<Rightarrow> json" where
  "spec_exception body =
     (if present (body ''exception'') then the (body ''exception'')
      else if present (body ''exc_type'') then the (body ''exc_type'')
      else JStr '''')"

definition spec_upload_exception :: "obj \<Rightarrow> json" where
  "spec_upload_exception body =
     (if present (body ''exception'') then the (body ''exception'') else JStr '''')"

text \<open>
  A result is the normalized error for a response when it is a thrown object whose
  \<^verbatim>\<open>httpStatus\<close> is the status code of the response and whose \<^verbatim>\<open>exception\<close> is the given
  value.
\<close>

definition normalized :: "response \<Rightarrow> json \<Rightarrow> thrown + 'a \<Rightarrow> bool" where
  "normalized res exc r =
     (case r of
        Inl (Thrown err) \<Rightarrow>
          err ''httpStatus'' = Some (JNum (int (status res))) \<and> err ''exception'' = Some exc
      | _ \<Rightarrow> False)"

section \<open>Example inputs\<close>

text \<open>
  A page of \<^verbatim>\<open>app.example.com\<close> that talks to the backend \<^verbatim>\<open>erp.example.com\<close>, and a
  host without a browser.
\<close>

abbreviation example_window :: browser_window where
  "example_window \<equiv>
     \<lparr>origin = ''https://app.example.com'', hostname = ''app.example.com'', csrf_token = None\<rparr>"

abbreviation example_browser :: env where
  "example_browser \<equiv> \<lparr>window = Some example_window, document = True\<rparr>"

abbreviation example_server_side :: env where
  "example_server_side \<equiv> \<lparr>window = None, document = False\<rparr>"

abbreviation example_keys :: FrappeOptions where
  "example_keys \<equiv>
     \<lparr>url = ''https://erp.example.com'', username = None, password = None,
      apiKey = Some ''KEY'', secretKey = Some ''SECRET'', extra_headers = None\<rparr>"

abbreviation example_keys_and_password :: FrappeOptions where
  "example_keys_and_password \<equiv>
     \<lparr>url = ''https://erp.example.com'', username = Some ''admin'', password = Some ''pw'',
      apiKey = Some ''KEY'', secretKey = Some ''SECRET'', extra_headers = None\<rparr>"

text \<open>A successful answer to the login request, and two refusals.\<close>

abbreviation example_session :: response where
  "example_session \<equiv>
     \<lparr>status = 200, statusText = ''OK'', data = Map.empty,
      set_cookie = Some [''theme=dark'', ''sid=abc; Path=/'']\<rparr>"

abbreviation example_no_cookie :: response where
  "example_no_cookie \<equiv>
     \<lparr>status = 200, statusText = ''OK'', data = Map.empty, set_cookie = None\<rparr>"

abbreviation example_unauthorized :: response where
  "example_unauthorized \<equiv>
     \<lparr>status = 401, statusText = ''UNAUTHORIZED'',
      data = [''exc_type'' \<mapsto> JStr ''AuthenticationError''], set_cookie = None\<rparr>"

text \<open>
  A backend that refuses every request with a validation error, and one that cannot be
  reached at all.
\<close>

abbreviation example_invalid :: response where
  "example_invalid \<equiv>
     \<lparr>status = 417, statusText = ''EXPECTATION FAILED'',
      data = [''exc_type'' \<mapsto> JStr ''ValidationError'',
              ''exception'' \<mapsto> JStr ''frappe.exceptions.ValidationError: Title is required''],
      set_cookie = None\<rparr>"

abbreviation example_refusing :: "'d AxiosInstance" where
  "example_refusing \<equiv>
     \<lparr>send = (\<lambda>r. Rejected (Some example_invalid)),
      send_list = (\<lambda>r. ListRejected (Some example_invalid))\<rparr>"

abbreviation example_unreachable :: "'d AxiosInstance" where
  "example_unreachable \<equiv>
     \<lparr>send = (\<lambda>r. Rejected None), send_list = (\<lambda>r. ListRejected None)\<rparr>"

abbreviation example_file :: File where
  "example_file \<equiv> \<lparr>file_name = ''notes.txt'', file_content = ''hello''\<rparr>"

abbreviation example_no_args :: FileArgs where
  "example_no_args \<equiv>
     \<lparr>isPrivate = None, folder = None, file_url = None, doctype = None, docname = None,
      fieldname = None, otherData = None\<rparr>"

text \<open>The list query of the README, a backend that counts 42 documents and finds none, and one
  with a single document.\<close>

abbreviation example_list_args :: GetDocListArgs where
  "example_list_args \<equiv>
     \<lparr>filters = Some [JArr [JStr ''creation'', JStr ''>'', JStr ''2021-10-09'']],
      orFilters = None,
      orderBy = Some \<lparr>field = ''creation'', order = Some Desc\<rparr>,
      fields_arg = None, limit = Some 10, limit_start = None, groupBy = None,
      asDict = None\<rparr>"

abbreviation example_counting :: "'d AxiosInstance" where
  "example_counting \<equiv>
     \<lparr>send = (\<lambda>r. Resolved \<lparr>status = 200, statusText = ''OK'',
                              data = [''message'' \<mapsto> JNum 42], set_cookie = None\<rparr>),
      send_list = (\<lambda>r. ListResolved [])\<rparr>"

abbreviation example_one_todo :: "name_item AxiosInstance" where
  "example_one_todo \<equiv>
     \<lparr>send = (\<lambda>r. Resolved \<lparr>status = 200, statusText = ''OK'',
                              data = [''data'' \<mapsto> JObj [(''name'', JStr ''TD 7''),
                                                          (''status'', JStr ''Open'')]],
                              set_cookie = None\<rparr>),
      send_list = (\<lambda>r. ListResolved [\<lparr>name = ''TD 7''\<rparr>])\<rparr>"


section \<open>The header builder outside a browser\<close>

lemma getCommonHeaders_no_window:
  "window e = None \<Longrightarrow> getCommonHeaders e base h = Inl (ReferenceError ''window is not defined'')"
  by (simp add: getCommonHeaders_def Let_def)

lemma getCommonHeaders_window:
  assumes "window e = Some w"
  shows "\<exists>hs. getCommonHeaders e base h = Inr hs
     \<and> hs ''Authorization'' = spread h ''Authorization''
     \<and> hs ''Cookie'' = spread h ''Cookie''"
  using assms by (auto simp add: getCommonHeaders_def Let_def map_add_def split: option.splits)

lemma getCommonHeaders_Inl:
  "getCommonHeaders e base h = Inl err \<Longrightarrow> err = ReferenceError ''window is not defined''"
  by (auto simp add: getCommonHeaders_def Let_def split: option.splits if_splits)

text \<open>
  C10. Where the global \<^verbatim>\<open>window\<close> is not defined, the header builder throws a
  ReferenceError instead of returning headers: the CSRF check reads \<^verbatim>\<open>window.csrf_token\<close>
  outside the guard that tests for a browser. So both ways of building a client fail there,
  the key-based one and the login-based one, the latter before any request is sent.
\<close>

theorem no_window_no_client:
  assumes "window e = None"
  shows "getCommonHeaders e base h = Inl (ReferenceError ''window is not defined'')
       \<and> getInstanceWithKeys e base key secret h = Inl (ReferenceError ''window is not defined'')
       \<and> getInstanceWithCredentials e post base usr pwd h
           = ([], Inl (ReferenceError ''window is not defined''))"
  using assms
  by (simp add: getCommonHeaders_no_window getInstanceWithKeys_def getInstanceWithCredentials_def)

theorem no_window_no_client_witness:
  "window example_server_side = None
   \<and> getCommonHeaders example_server_side ''https://erp.example.com'' None
       = Inl (ReferenceError ''window is not defined'')
   \<and> getInstanceWithKeys example_server_side ''https://erp.example.com''
         (Some ''KEY'') (Some ''SECRET'') None
       = Inl (ReferenceError ''window is not defined'')
   \<and> getInstanceWithCredentials example_server_side (\<lambda>r. Resolved example_session)
         ''https://erp.example.com'' (Some ''admin'') (Some ''pw'') None
       = ([], Inl (ReferenceError ''window is not defined''))"
  using no_window_no_client [of example_server_side "''https://erp.example.com''" None
      "Some ''KEY''" "Some ''SECRET''" "\<lambda>r. Resolved example_session"
      "Some ''admin''" "Some ''pw''"]
  by simp

section \<open>Key-based clients\<close>

text \<open>
  C6, as the code has it. When \<^verbatim>\<open>apiKey\<close> and \<^verbatim>\<open>secretKey\<close> are both non-empty and the
  global \<^verbatim>\<open>window\<close> is defined, the constructor (which has no access to the network) holds
  a client for the configured URL with \<^verbatim>\<open>withCredentials\<close> enabled. Its
  \<^verbatim>\<open>Authorization\<close> header is \<^verbatim>\<open>token <apiKey>:<secretKey>\<close> unless the caller's own
  headers have an \<^verbatim>\<open>Authorization\<close> key: those are spread after it and win.
\<close>

theorem constructor_with_keys:
  assumes "apiKey opts = Some key" and "key \<noteq> []"
    and "secretKey opts = Some secret" and "secret \<noteq> []"
    and "window e = Some w"
  shows "\<exists>f c. Frappe_constructor e opts = Inr f \<and> client f = Some c
           \<and> baseURL c = url opts
           \<and> withCredentials c = Some True
           \<and> headers c ''Authorization'' =
               (case spread (extra_headers opts) ''Authorization'' of
                  Some v \<Rightarrow> Some v
                | None \<Rightarrow> Some (''token '' @ key @ '':'' @ secret))"
proof -
  obtain hs where hs: "getCommonHeaders e (url opts) (extra_headers opts) = Inr hs"
    and auth: "hs ''Authorization'' = spread (extra_headers opts) ''Authorization''"
    using getCommonHeaders_window [OF assms(5)] by blast
  show ?thesis
    using assms(1-4) hs auth
    by (simp add: Frappe_constructor_def getInstanceWithKeys_def truthy_def template_def
        FrappeOptions.defs Frappe.defs map_add_def split: option.splits)
qed

theorem constructor_with_keys_witness:
  "apiKey example_keys = Some ''KEY'' \<and> ''KEY'' \<noteq> []
   \<and> secretKey example_keys = Some ''SECRET'' \<and> ''SECRET'' \<noteq> []
   \<and> window example_browser = Some example_window
   \<and> (\<exists>f c. Frappe_constructor example_browser example_keys = Inr f
        \<and> client f = Some c \<and> baseURL c = ''https://erp.example.com''
        \<and> withCredentials c = Some True
        \<and> headers c ''Authorization'' = Some ''token KEY:SECRET'')"
  using constructor_with_keys [of example_keys "''KEY''" "''SECRET''"
      example_browser example_window]
  by (simp add: spread_def)

text \<open>
  C6 as stated fails: with the keys \<^verbatim>\<open>KEY\<close> and \<^verbatim>\<open>SECRET\<close> and the extra header
  \<^verbatim>\<open>Authorization: Bearer abc\<close>, the client that the constructor builds in a browser
  carries \<^verbatim>\<open>Bearer abc\<close>, not \<^verbatim>\<open>token KEY:SECRET\<close>.
\<close>

theorem constructor_authorization_counterexample:
  "truthy (Some ''KEY'') \<and> truthy (Some ''SECRET'')
   \<and> \<not> isl (Frappe_constructor example_browser
         (example_keys\<lparr>extra_headers := Some [''Authorization'' \<mapsto> ''Bearer abc'']\<rparr>))
   \<and> headers (the (client (projr (Frappe_constructor example_browser
         (example_keys\<lparr>extra_headers := Some [''Authorization'' \<mapsto> ''Bearer abc'']\<rparr>)))))
         ''Authorization''
       = Some ''Bearer abc''
   \<and> Some ''Bearer abc'' \<noteq> Some (''token '' @ ''KEY'' @ '':'' @ ''SECRET'')"
  by (simp add: Frappe_constructor_def getInstanceWithKeys_def getCommonHeaders_def truthy_def
      template_def spread_def FrappeOptions.defs Frappe.defs map_add_def Let_def)

section \<open>Explicit login\<close>

lemma credentials_never_usage_error:
  "snd (getInstanceWithCredentials e post base usr pwd h)
     \<noteq> Inl (JsError ''You don't need to login if you have API key and secret key'')"
  by (auto simp add: getInstanceWithCredentials_def Let_def
      split: sum.splits outcome.splits option.splits dest: getCommonHeaders_Inl)

text \<open>
  C1, as the code has it. \<open>login\<close> tests the user name and password first. When
  \<^verbatim>\<open>apiKey\<close> and \<^verbatim>\<open>secretKey\<close> are both non-empty and user name and password are not
  both non-empty, it throws the "don't need to login" error and sends nothing. When user name
  and password are both non-empty it performs the credential login, whatever the keys are,
  and never throws that error.
\<close>

theorem login_with_keys:
  "(truthy (apiKey f) \<and> truthy (secretKey f) \<and> \<not> (truthy (username f) \<and> truthy (password f))
      \<longrightarrow> login e post f
            = ([], Inl (JsError ''You don't need to login if you have API key and secret key'')))
   \<and> (truthy (username f) \<and> truthy (password f)
      \<longrightarrow> fst (login e post f)
            = fst (getInstanceWithCredentials e post (url f) (username f) (password f)
                     (extra_headers f))
        \<and> snd (login e post f)
            \<noteq> Inl (JsError ''You don't need to login if you have API key and secret key''))"
proof -
  have "snd (login e post f)
          \<noteq> Inl (JsError ''You don't need to login if you have API key and secret key'')"
    if "truthy (username f) \<and> truthy (password f)"
    using that credentials_never_usage_error
      [of e post "url f" "username f" "password f" "extra_headers f"]
    by (auto simp add: login_def split: prod.splits sum.splits)
  moreover have "fst (login e post f)
            = fst (getInstanceWithCredentials e post (url f) (username f) (password f)
                     (extra_headers f))"
    if "truthy (username f) \<and> truthy (password f)"
    using that by (auto simp add: login_def split: prod.splits sum.splits)
  ultimately show ?thesis
    by (auto simp add: login_def)
qed

theorem login_with_keys_witness:
  "truthy (apiKey (projr (Frappe_constructor example_browser example_keys)))
   \<and> truthy (secretKey (projr (Frappe_constructor example_browser example_keys)))
   \<and> \<not> truthy (username (projr (Frappe_constructor example_browser example_keys)))
   \<and> login example_browser (\<lambda>r. Resolved example_session)
         (projr (Frappe_constructor example_browser example_keys))
       = ([], Inl (JsError ''You don't need to login if you have API key and secret key''))
   \<and> truthy (username (projr (Frappe_constructor example_browser example_keys_and_password)))
   \<and> truthy (password (projr (Frappe_constructor example_browser example_keys_and_password)))
   \<and> snd (login example_browser (\<lambda>r. Resolved example_session)
         (projr (Frappe_constructor example_browser example_keys_and_password)))
       \<noteq> Inl (JsError ''You don't need to login if you have API key and secret key'')"
  using login_with_keys [of "projr (Frappe_constructor example_browser example_keys)"
      example_browser "\<lambda>r. Resolved example_session"]
    login_with_keys [of "projr (Frappe_constructor example_browser example_keys_and_password)"
      example_browser "\<lambda>r. Resolved example_session"]
  by (simp add: Frappe_constructor_def getInstanceWithKeys_def getCommonHeaders_def truthy_def
      spread_def FrappeOptions.defs Frappe.defs Let_def)

text \<open>
  C1 as stated fails: with all four credentials set, \<open>login\<close> in a browser posts to the
  login endpoint and, the server answering with a session cookie, returns normally.
\<close>

theorem login_with_keys_counterexample:
  "truthy (apiKey (projr (Frappe_constructor example_browser example_keys_and_password)))
   \<and> truthy (secretKey (projr (Frappe_constructor example_browser example_keys_and_password)))
   \<and> map req_url (fst (login example_browser (\<lambda>r. Resolved example_session)
         (projr (Frappe_constructor example_browser example_keys_and_password))))
       = [''https://erp.example.com/api/method/login'']
   \<and> \<not> isl (snd (login example_browser (\<lambda>r. Resolved example_session)
         (projr (Frappe_constructor example_browser example_keys_and_password))))"
  by (simp add: login_def getInstanceWithCredentials_def Frappe_constructor_def
      getInstanceWithKeys_def getCommonHeaders_def truthy_def spread_def
      FrappeOptions.defs Frappe.defs Let_def)

section \<open>Credential login\<close>

text \<open>
  C4, as the code has it. In a browser the call sends one POST to the login endpoint. When
  that request resolves with status 200 and some \<^verbatim>\<open>set-cookie\<close> entry starts with
  \<^verbatim>\<open>sid=\<close>, the call returns a client for the URL whose \<^verbatim>\<open>Cookie\<close> header is the first
  such entry, unless the caller's own headers have a \<^verbatim>\<open>Cookie\<close> key, which then takes its
  place. When the request resolves with another status or without such an entry, the call
  throws the error \<^verbatim>\<open>Failed to login to <url>\<close>. When the transport rejects the request,
  as axios does for a status outside 2xx, that rejection is what the caller gets.
\<close>

theorem credential_login:
  assumes "window e = Some w"
  shows "\<exists>req. fst (getInstanceWithCredentials e post base usr pwd h) = [req]
      \<and> req_method req = POST \<and> req_url req = base @ ''/api/method/login''
      \<and> (\<forall>res cookies c.
            post req = Resolved res \<and> status res = 200 \<and> set_cookie res = Some cookies
            \<and> c \<in> set cookies \<and> prefix ''sid='' c \<longrightarrow>
            (\<exists>sid cl. find (prefix ''sid='') cookies = Some sid
               \<and> snd (getInstanceWithCredentials e post base usr pwd h) = Inr cl
               \<and> baseURL cl = base
               \<and> headers cl ''Cookie'' =
                   (case spread h ''Cookie'' of Some v \<Rightarrow> Some v | None \<Rightarrow> Some sid)))
      \<and> (\<forall>res.
            post req = Resolved res
            \<and> (status res \<noteq> 200 \<or> set_cookie res = None
                \<or> (\<exists>cookies. set_cookie res = Some cookies
                      \<and> (\<forall>c \<in> set cookies. \<not> prefix ''sid='' c))) \<longrightarrow>
            snd (getInstanceWithCredentials e post base usr pwd h)
              = Inl (JsError (''Failed to login to '' @ base)))
      \<and> (\<forall>r. post req = Rejected r \<longrightarrow>
            snd (getInstanceWithCredentials e post base usr pwd h) = Inl (AxiosError r))"
proof -
  obtain hs where hs: "getCommonHeaders e base h = Inr hs"
    and cookie: "hs ''Cookie'' = spread h ''Cookie''"
    using getCommonHeaders_window [OF assms] by blast
  define req where "req =
     \<lparr>req_method = POST,
      req_url = base @ ''/api/method/login'',
      req_data = JsonData (JObj
        ((case usr of None \<Rightarrow> [] | Some u \<Rightarrow> [(''usr'', JStr u)]) @
         (case pwd of None \<Rightarrow> [] | Some p \<Rightarrow> [(''pwd'', JStr p)]))),
      req_params = None,
      req_headers = hs\<rparr>"
  have trace: "fst (getInstanceWithCredentials e post base usr pwd h) = [req]"
    using hs
    by (simp add: getInstanceWithCredentials_def req_def Let_def
        split: outcome.splits option.splits)
  have rej: "snd (getInstanceWithCredentials e post base usr pwd h) = Inl (AxiosError r)"
    if "post req = Rejected r" for r
    using that hs
    by (simp add: getInstanceWithCredentials_def req_def Let_def)
  have fail: "snd (getInstanceWithCredentials e post base usr pwd h)
              = Inl (JsError (''Failed to login to '' @ base))"
    if res: "post req = Resolved res"
      and no: "status res \<noteq> 200 \<or> set_cookie res = None
                \<or> (\<exists>cookies. set_cookie res = Some cookies
                      \<and> (\<forall>c \<in> set cookies. \<not> prefix ''sid='' c))" for res
  proof -
    have "status res \<noteq> 200
        \<or> (case set_cookie res of None \<Rightarrow> None | Some cs \<Rightarrow> find (prefix ''sid='') cs) = None"
      using no by (auto simp add: find_None_iff)
    then show ?thesis
      using res hs
      by (auto simp add: getInstanceWithCredentials_def req_def Let_def)
  qed
  have ok: "\<exists>sid cl. find (prefix ''sid='') cookies = Some sid
               \<and> snd (getInstanceWithCredentials e post base usr pwd h) = Inr cl
               \<and> baseURL cl = base
               \<and> headers cl ''Cookie'' =
                   (case spread h ''Cookie'' of Some v \<Rightarrow> Some v | None \<Rightarrow> Some sid)"
    if res: "post req = Resolved res" "status res = 200" "set_cookie res = Some cookies"
      and c: "c \<in> set cookies" "prefix ''sid='' c" for res cookies c
  proof -
    obtain sid where sid: "find (prefix ''sid='') cookies = Some sid"
      using c by (cases "find (prefix ''sid='') cookies") (auto simp add: find_None_iff)
    show ?thesis
      using res hs cookie sid
      by (simp add: getInstanceWithCredentials_def req_def Let_def
          map_add_def split: option.splits)
  qed
  have "req_method req = POST \<and> req_url req = base @ ''/api/method/login''"
    by (simp add: req_def)
  with trace rej fail ok show ?thesis
    by blast
qed

theorem credential_login_witness:
  "window example_browser = Some example_window
   \<and> status example_session = 200
   \<and> ''sid=abc; Path=/'' \<in> set (the (set_cookie example_session))
   \<and> prefix ''sid='' ''sid=abc; Path=/''
   \<and> map req_url (fst (getInstanceWithCredentials example_browser
         (\<lambda>r. Resolved example_session) ''https://erp.example.com''
         (Some ''admin'') (Some ''pw'') None))
       = [''https://erp.example.com/api/method/login'']
   \<and> map_sum id (\<lambda>cl. headers cl ''Cookie'')
         (snd (getInstanceWithCredentials example_browser
            (\<lambda>r. Resolved example_session) ''https://erp.example.com''
            (Some ''admin'') (Some ''pw'') None))
       = Inr (Some ''sid=abc; Path=/'')
   \<and> set_cookie example_no_cookie = None
   \<and> snd (getInstanceWithCredentials example_browser
         (\<lambda>r. Resolved example_no_cookie) ''https://erp.example.com''
         (Some ''admin'') (Some ''pw'') None)
       = Inl (JsError ''Failed to login to https://erp.example.com'')
   \<and> map_sum (\<lambda>t. case t of AxiosError r \<Rightarrow> map_option status r | _ \<Rightarrow> None) id
         (snd (getInstanceWithCredentials example_browser
            (\<lambda>r. Rejected (Some example_unauthorized)) ''https://erp.example.com''
            (Some ''admin'') (Some ''pw'') None))
       = Inl (Some 401)"
  using credential_login [of example_browser example_window
      "\<lambda>r. Resolved example_session" "''https://erp.example.com''"
      "Some ''admin''" "Some ''pw''" None]
    credential_login [of example_browser example_window
      "\<lambda>r. Resolved example_no_cookie" "''https://erp.example.com''"
      "Some ''admin''" "Some ''pw''" None]
    credential_login [of example_browser example_window
      "\<lambda>r. Rejected (Some example_unauthorized)" "''https://erp.example.com''"
      "Some ''admin''" "Some ''pw''" None]
  by (simp add: getInstanceWithCredentials_def getCommonHeaders_def spread_def Let_def
      map_add_def)

text \<open>
  C4 as stated fails twice over. With status 200 and the cookie \<^verbatim>\<open>sid=abc; Path=/\<close> in
  the response, a caller whose extra headers have \<^verbatim>\<open>Cookie: theme=dark\<close> gets a client
  with that header, not the session cookie. And when the transport rejects the login request
  with the status 401, the call fails with that rejection, not with the message
  \<^verbatim>\<open>Failed to login to https://erp.example.com\<close>.
\<close>

theorem credential_login_counterexample:
  "status example_session = 200
   \<and> find (prefix ''sid='') (the (set_cookie example_session)) = Some ''sid=abc; Path=/''
   \<and> map_sum id (\<lambda>cl. headers cl ''Cookie'')
         (snd (getInstanceWithCredentials example_browser
            (\<lambda>r. Resolved example_session) ''https://erp.example.com''
            (Some ''admin'') (Some ''pw'') (Some [''Cookie'' \<mapsto> ''theme=dark''])))
       = Inr (Some ''theme=dark'')
   \<and> status example_unauthorized \<noteq> 200
   \<and> snd (getInstanceWithCredentials example_browser
         (\<lambda>r. Rejected (Some example_unauthorized)) ''https://erp.example.com''
         (Some ''admin'') (Some ''pw'') None)
       \<noteq> Inl (JsError ''Failed to login to https://erp.example.com'')"
  by (simp add: getInstanceWithCredentials_def getCommonHeaders_def spread_def Let_def
      map_add_def)

section \<open>Errors of the document and upload clients\<close>

lemma exception_of_spec: "exception_of body = spec_exception body"
  by (auto simp add: exception_of_def spec_exception_def coalesce_def nullish_def present_def
      split: option.splits)

lemma catch_fixed_normalized:
  "normalized res (spec_exception (data res)) (Inl (catch_fixed msg (Some res)))"
  by (simp add: normalized_def catch_fixed_def exception_of_spec)

lemma catch_remote_normalized:
  "normalized res (spec_exception (data res)) (Inl (catch_remote msg (Some res)))"
  by (simp add: normalized_def catch_remote_def exception_of_spec)

lemma catch_upload_normalized:
  "normalized res (spec_upload_exception (data res)) (Inl (catch_upload (Some res)))"
  by (auto simp add: normalized_def catch_upload_def spec_upload_exception_def coalesce_def
      nullish_def present_def split: option.splits)

lemma getDoc_failed:
  "send ax (hd (fst (getDoc js ax dt dn))) = Rejected (Some res) \<Longrightarrow>
   normalized res (spec_exception (data res)) (snd (getDoc js ax dt dn))"
  by (simp add: getDoc_def Let_def catch_fixed_normalized)

lemma getDocList_failed:
  "send_list ax (hd (fst (getDocList js ax dt args))) = ListRejected (Some res) \<Longrightarrow>
   normalized res (spec_exception (data res)) (snd (getDocList js ax dt args))"
  by (simp add: getDocList_def Let_def catch_fixed_normalized)

lemma createDoc_failed:
  "send ax (hd (fst (createDoc ax d))) = Rejected (Some res) \<Longrightarrow>
   normalized res (spec_exception (data res)) (snd (createDoc ax d))"
  by (simp add: createDoc_def Let_def catch_remote_normalized)

lemma createManyDocs_failed:
  "send ax (hd (fst (createManyDocs ax docs))) = Rejected (Some res) \<Longrightarrow>
   normalized res (spec_exception (data res)) (snd (createManyDocs ax docs))"
  by (simp add: createManyDocs_def Let_def catch_remote_normalized)

lemma updateDoc_failed:
  "send ax (hd (fst (updateDoc js ax dt dn val))) = Rejected (Some res) \<Longrightarrow>
   normalized res (spec_exception (data res)) (snd (updateDoc js ax dt dn val))"
  by (simp add: updateDoc_def Let_def catch_remote_normalized)

lemma updateManyDocs_failed:
  "send ax (hd (fst (updateManyDocs ax docs))) = Rejected (Some res) \<Longrightarrow>
   normalized res (spec_exception (data res)) (snd (updateManyDocs ax docs))"
  by (simp add: updateManyDocs_def Let_def catch_remote_normalized)

lemma submitDoc_failed:
  "send ax (hd (fst (submitDoc ax dt dn))) = Rejected (Some res) \<Longrightarrow>
   normalized res (spec_exception (data res)) (snd (submitDoc ax dt dn))"
  by (simp add: submitDoc_def Let_def catch_remote_normalized)

lemma cancelDoc_failed:
  "send ax (hd (fst (cancelDoc ax dt dn))) = Rejected (Some res) \<Longrightarrow>
   normalized res (spec_exception (data res)) (snd (cancelDoc ax dt dn))"
  by (simp add: cancelDoc_def Let_def catch_remote_normalized)

lemma renameDoc_failed:
  "send ax (hd (fst (renameDoc ax dt old new))) = Rejected (Some res) \<Longrightarrow>
   normalized res (spec_exception (data res)) (snd (renameDoc ax dt old new))"
  by (simp add: renameDoc_def Let_def catch_remote_normalized)

lemma deleteDoc_failed:
  "send ax (hd (fst (deleteDoc ax dt dno))) = Rejected (Some res) \<Longrightarrow>
   normalized res (spec_exception (data res)) (snd (deleteDoc ax dt dno))"
  by (simp add: deleteDoc_def Let_def catch_fixed_normalized)

lemma getCount_failed:
  "send ax (hd (fst (getCount js ax dt fs cache debug))) = Rejected (Some res) \<Longrightarrow>
   normalized res (spec_exception (data res)) (snd (getCount js ax dt fs cache debug))"
  by (simp add: getCount_def Let_def catch_fixed_normalized)

lemma upload_failed:
  "send ax (hd (fst (upload ax file args path))) = Rejected (Some res) \<Longrightarrow>
   normalized res (spec_upload_exception (data res)) (snd (upload ax file args path))"
  by (simp add: upload_def Let_def catch_upload_normalized)

text \<open>
  C3. Whenever the request of a document or remote-procedure call is rejected with a
  response, the call throws an object whose \<^verbatim>\<open>httpStatus\<close> is the status code of that
  response and whose \<^verbatim>\<open>exception\<close> is the \<^verbatim>\<open>exception\<close> field of the remote body when
  present, else its \<^verbatim>\<open>exc_type\<close> field, else the empty string. The upload client does the
  same without the \<^verbatim>\<open>exc_type\<close> fallback.
\<close>

theorem failed_call_normalized:
  "(send ax (hd (fst (getDoc js ax dt dn))) = Rejected (Some res) \<longrightarrow>
      normalized res (spec_exception (data res)) (snd (getDoc js ax dt dn)))
   \<and> (send_list ax (hd (fst (getDocList js ax dt args))) = ListRejected (Some res) \<longrightarrow>
      normalized res (spec_exception (data res)) (snd (getDocList js ax dt args)))
   \<and> (send ax (hd (fst (createDoc ax d))) = Rejected (Some res) \<longrightarrow>
      normalized res (spec_exception (data res)) (snd (createDoc ax d)))
   \<and> (send ax (hd (fst (createManyDocs ax docs))) = Rejected (Some res) \<longrightarrow>
      normalized res (spec_exception (data res)) (snd (createManyDocs ax docs)))
   \<and> (send ax (hd (fst (updateDoc js ax dt dnull val))) = Rejected (Some res) \<longrightarrow>
      normalized res (spec_exception (data res)) (snd (updateDoc js ax dt dnull val)))
   \<and> (send ax (hd (fst (updateManyDocs ax docs))) = Rejected (Some res) \<longrightarrow>
      normalized res (spec_exception (data res)) (snd (updateManyDocs ax docs)))
   \<and> (send ax (hd (fst (submitDoc ax dt nm))) = Rejected (Some res) \<longrightarrow>
      normalized res (spec_exception (data res)) (snd (submitDoc ax dt nm)))
   \<and> (send ax (hd (fst (cancelDoc ax dt nm))) = Rejected (Some res) \<longrightarrow>
      normalized res (spec_exception (data res)) (snd (cancelDoc ax dt nm)))
   \<and> (send ax (hd (fst (renameDoc ax dt nm nm'))) = Rejected (Some res) \<longrightarrow>
      normalized res (spec_exception (data res)) (snd (renameDoc ax dt nm nm')))
   \<and> (send ax (hd (fst (deleteDoc ax dt dno))) = Rejected (Some res) \<longrightarrow>
      normalized res (spec_exception (data res)) (snd (deleteDoc ax dt dno)))
   \<and> (send ax (hd (fst (getCount js ax dt fs cache debug))) = Rejected (Some res) \<longrightarrow>
      normalized res (spec_exception (data res)) (snd (getCount js ax dt fs cache debug)))
   \<and> (send ax (hd (fst (upload ax fl fargs path))) = Rejected (Some res) \<longrightarrow>
      normalized res (spec_upload_exception (data res)) (snd (upload ax fl fargs path)))"
  by (simp add: getDoc_failed getDocList_failed createDoc_failed createManyDocs_failed
      updateDoc_failed updateManyDocs_failed submitDoc_failed cancelDoc_failed
      renameDoc_failed deleteDoc_failed getCount_failed upload_failed)

theorem failed_call_normalized_witness:
  "send (example_refusing :: json AxiosInstance)
      (hd (fst (getDoc reference_host (example_refusing :: json AxiosInstance) ''ToDo''
         (Some ''TD 1''))))
     = Rejected (Some example_invalid)
   \<and> send_list (example_refusing :: json AxiosInstance)
      (hd (fst (getDocList reference_host (example_refusing :: json AxiosInstance) ''ToDo''
         None)))
     = ListRejected (Some example_invalid)
   \<and> status example_invalid = 417
   \<and> spec_exception (data example_invalid)
       = JStr ''frappe.exceptions.ValidationError: Title is required''
   \<and> spec_upload_exception (data example_invalid)
       = JStr ''frappe.exceptions.ValidationError: Title is required''
   \<and> spec_exception (data example_unauthorized) = JStr ''AuthenticationError''
   \<and> spec_upload_exception (data example_unauthorized) = JStr ''''
   \<and> normalized example_invalid (spec_exception (data example_invalid))
        (snd (getDoc reference_host (example_refusing :: json AxiosInstance) ''ToDo''
           (Some ''TD 1'')))
   \<and> normalized example_invalid (spec_exception (data example_invalid))
        (snd (getDocList reference_host (example_refusing :: json AxiosInstance) ''ToDo'' None))
   \<and> normalized example_invalid (spec_exception (data example_invalid))
        (snd (createDoc (example_refusing :: json AxiosInstance)
           \<lparr>doc_doctype = ''ToDo'', doc_values = [(''title'', JStr '''')]\<rparr>))
   \<and> normalized example_invalid (spec_exception (data example_invalid))
        (snd (createManyDocs (example_refusing :: json AxiosInstance)
           [\<lparr>doc_doctype = ''ToDo'', doc_values = [(''title'', JStr '''')]\<rparr>]))
   \<and> normalized example_invalid (spec_exception (data example_invalid))
        (snd (updateDoc reference_host (example_refusing :: json AxiosInstance) ''ToDo'' None
           [(''title'', JStr '''')]))
   \<and> normalized example_invalid (spec_exception (data example_invalid))
        (snd (updateManyDocs (example_refusing :: json AxiosInstance)
           [\<lparr>doc_doctype = ''ToDo'', doc_values = [(''title'', JStr '''')]\<rparr>]))
   \<and> normalized example_invalid (spec_exception (data example_invalid))
        (snd (submitDoc (example_refusing :: json AxiosInstance) ''ToDo'' ''TD 1''))
   \<and> normalized example_invalid (spec_exception (data example_invalid))
        (snd (cancelDoc (example_refusing :: json AxiosInstance) ''ToDo'' ''TD 1''))
   \<and> normalized example_invalid (spec_exception (data example_invalid))
        (snd (renameDoc (example_refusing :: json AxiosInstance) ''ToDo'' ''TD 1'' ''TD 2''))
   \<and> normalized example_invalid (spec_exception (data example_invalid))
        (snd (deleteDoc (example_refusing :: json AxiosInstance) ''ToDo'' (Some (Some ''TD 1''))))
   \<and> normalized example_invalid (spec_exception (data example_invalid))
        (snd (getCount reference_host (example_refusing :: json AxiosInstance) ''ToDo''
           None None None))
   \<and> normalized example_invalid (spec_upload_exception (data example_invalid))
        (snd (upload (example_refusing :: json AxiosInstance) (Some example_file) example_no_args None))"
  using failed_call_normalized [where ax = "example_refusing :: json AxiosInstance"
      and js = reference_host and dt = "''ToDo''" and dn = "Some ''TD 1''"
      and res = example_invalid and args = None
      and d = "\<lparr>doc_doctype = ''ToDo'', doc_values = [(''title'', JStr '''')]\<rparr>"
      and docs = "[\<lparr>doc_doctype = ''ToDo'', doc_values = [(''title'', JStr '''')]\<rparr>]"
      and dnull = None and val = "[(''title'', JStr '''')]"
      and nm = "''TD 1''" and nm' = "''TD 2''"
      and dno = "Some (Some ''TD 1'')" and fs = None and cache = None and debug = None
      and fl = "Some example_file" and fargs = example_no_args and path = None]
  by (simp add: spec_exception_def spec_upload_exception_def present_def)

text \<open>
  C9. The claim is that a failure surfaces as the same normalized error whether or not it
  carries a response. The code does not do that: when the rejection has no response, the
  catch handler itself fails on \<^verbatim>\<open>error.response.data\<close>, and the caller gets that
  TypeError, which is no normalized error for any response. The same backend, answering with
  a response, yields the normalized error.
\<close>

theorem transport_failure_not_normalized:
  "snd (getDocList reference_host (example_unreachable :: json AxiosInstance) ''ToDo'' None)
     = Inl (TypeError ''Cannot read properties of undefined (reading 'data')'')
   \<and> \<not> normalized res exc
         (snd (getDocList reference_host (example_unreachable :: json AxiosInstance) ''ToDo'' None))
   \<and> snd (upload (example_unreachable :: json AxiosInstance) (Some example_file) example_no_args None)
     = Inl (TypeError ''Cannot read properties of undefined (reading 'data')'')
   \<and> normalized example_invalid
        (JStr ''frappe.exceptions.ValidationError: Title is required'')
        (snd (getDocList reference_host (example_refusing :: json AxiosInstance) ''ToDo'' None))"
  by (simp add: getDocList_def upload_def catch_fixed_def catch_upload_def normalized_def
      exception_of_def coalesce_def nullish_def Let_def)

section \<open>Request parameters of the list and count calls\<close>

text \<open>
  C5. With arguments supplied, the list call sends one GET whose parameters are: \<^verbatim>\<open>filters\<close>
  and \<^verbatim>\<open>or_filters\<close>, the JSON strings of the given arrays, absent when not given;
  \<^verbatim>\<open>fields\<close>, the JSON string of the array of field names; \<^verbatim>\<open>order_by\<close>, the field and
  the order separated by a blank, the order being \<^verbatim>\<open>asc\<close> when omitted (and the empty
  string when no order is given at all); \<^verbatim>\<open>group_by\<close>, \<^verbatim>\<open>limit\<close> and \<^verbatim>\<open>limit_start\<close> as
  given; and \<^verbatim>\<open>as_dict\<close>, true unless given. In particular the filter
  \<^verbatim>\<open>[['creation','>','2021-10-09']]\<close> with limit 10 and order \<^verbatim>\<open>creation\<close> descending
  yields that array's JSON string, \<^verbatim>\<open>creation desc\<close> and 10.
\<close>

theorem getDocList_request_parameters:
  "\<exists>p. fst (getDocList js ax dt (Some a))
          = [(request GET (''/api/resource/'' @ dt))\<lparr>req_params := Some p\<rparr>]
     \<and> p ''filters'' = map_option (\<lambda>fs. JStr (JSON_stringify js (JArr fs))) (filters a)
     \<and> p ''or_filters'' = map_option (\<lambda>fs. JStr (JSON_stringify js (JArr fs))) (orFilters a)
     \<and> p ''fields''
         = map_option (\<lambda>fs. JStr (JSON_stringify js (JArr (map JStr fs)))) (fields_arg a)
     \<and> p ''order_by''
         = Some (JStr (case orderBy a of
                         None \<Rightarrow> ''''
                       | Some b \<Rightarrow>
                           field b @ '' '' @
                           (case order b of Some Desc \<Rightarrow> ''desc'' | _ \<Rightarrow> ''asc'')))
     \<and> p ''group_by'' = map_option JStr (groupBy a)
     \<and> p ''limit'' = map_option JNum (limit a)
     \<and> p ''limit_start'' = map_option JNum (limit_start a)
     \<and> p ''as_dict'' = Some (JBool (case asDict a of None \<Rightarrow> True | Some b \<Rightarrow> b))
     \<and> dom p \<subseteq> {''fields'', ''filters'', ''or_filters'', ''order_by'', ''group_by'',
                  ''limit'', ''limit_start'', ''as_dict''}
     \<and> (filters a = Some [JArr [JStr ''creation'', JStr ''>'', JStr ''2021-10-09'']]
          \<and> limit a = Some 10
          \<and> orderBy a = Some \<lparr>field = ''creation'', order = Some Desc\<rparr> \<longrightarrow>
          p ''filters''
            = Some (JStr (JSON_stringify js
                (JArr [JArr [JStr ''creation'', JStr ''>'', JStr ''2021-10-09'']])))
          \<and> p ''order_by'' = Some (JStr ''creation desc'')
          \<and> p ''limit'' = Some (JNum 10))"
proof -
  define p where "p = list_params js (Some a)"
  have "fst (getDocList js ax dt (Some a))
          = [(request GET (''/api/resource/'' @ dt))\<lparr>req_params := Some p\<rparr>]"
    by (simp add: getDocList_def Let_def p_def)
  moreover have "p ''order_by''
         = Some (JStr (case orderBy a of
                         None \<Rightarrow> ''''
                       | Some b \<Rightarrow>
                           field b @ '' '' @
                           (case order b of Some Desc \<Rightarrow> ''desc'' | _ \<Rightarrow> ''asc'')))"
    by (simp add: p_def list_params_def orderByString_def
        split: option.splits sort_order.splits)
  moreover have "p ''filters'' = map_option (\<lambda>fs. JStr (JSON_stringify js (JArr fs))) (filters a)"
    and "p ''or_filters'' = map_option (\<lambda>fs. JStr (JSON_stringify js (JArr fs))) (orFilters a)"
    and "p ''fields''
         = map_option (\<lambda>fs. JStr (JSON_stringify js (JArr (map JStr fs)))) (fields_arg a)"
    and "p ''group_by'' = map_option JStr (groupBy a)"
    and "p ''limit'' = map_option JNum (limit a)"
    and "p ''limit_start'' = map_option JNum (limit_start a)"
    and "p ''as_dict'' = Some (JBool (case asDict a of None \<Rightarrow> True | Some b \<Rightarrow> b))"
    by (simp_all add: p_def list_params_def)
  moreover have "dom p \<subseteq> {''fields'', ''filters'', ''or_filters'', ''order_by'', ''group_by'',
                  ''limit'', ''limit_start'', ''as_dict''}"
    by (auto simp add: p_def list_params_def dom_def split: if_splits)
  ultimately show ?thesis
    by (intro exI [of _ p]) simp
qed

theorem getDocList_request_parameters_witness:
  \<open>filters example_list_args = Some [JArr [JStr ''creation'', JStr ''>'', JStr ''2021-10-09'']]
   \<and> limit example_list_args = Some 10
   \<and> orderBy example_list_args = Some \<lparr>field = ''creation'', order = Some Desc\<rparr>
   \<and> (\<exists>p. map req_params
            (fst (getDocList reference_host (example_refusing :: json AxiosInstance) ''DocType''
               (Some example_list_args))) = [Some p]
        \<and> p ''filters'' = Some (JStr ''[["creation",">","2021-10-09"]]'')
        \<and> p ''order_by'' = Some (JStr ''creation desc'')
        \<and> p ''limit'' = Some (JNum 10)
        \<and> p ''as_dict'' = Some (JBool True)
        \<and> p ''fields'' = None \<and> p ''or_filters'' = None)\<close>
  using getDocList_request_parameters [of reference_host
      "example_refusing :: json AxiosInstance" "''DocType''" example_list_args]
  by (auto simp add: reference_host_def quote_def)

text \<open>
  C8. The count call sends one GET whose parameters always have a \<^verbatim>\<open>filters\<close> key: the
  empty array when the caller passed no filters, the JSON string of the caller's filters
  otherwise. The keys \<^verbatim>\<open>cache\<close> and \<^verbatim>\<open>debug\<close> are there only when the flag is true. The
  call returns the \<^verbatim>\<open>message\<close> field of the response body.
\<close>

theorem getCount_request_parameters:
  "\<exists>p. fst (getCount js ax dt fs cache debug) = [(request GET '''')\<lparr>req_params := Some p\<rparr>]
     \<and> p ''cmd'' = Some (JStr ''frappe.client.get_count'')
     \<and> p ''doctype'' = Some (JStr dt)
     \<and> p ''filters''
         = Some (case fs of None \<Rightarrow> JArr [] | Some f \<Rightarrow> JStr (JSON_stringify js (JArr f)))
     \<and> p ''cache'' = (if cache = Some True then Some (JBool True) else None)
     \<and> p ''debug'' = (if debug = Some True then Some (JBool True) else None)
     \<and> dom p \<subseteq> {''cmd'', ''doctype'', ''filters'', ''cache'', ''debug''}
     \<and> (\<forall>res. send ax ((request GET '''')\<lparr>req_params := Some p\<rparr>) = Resolved res \<longrightarrow>
           snd (getCount js ax dt fs cache debug) = Inr (data res ''message''))"
proof -
  define p where "p = count_params js dt fs cache debug"
  have "fst (getCount js ax dt fs cache debug) = [(request GET '''')\<lparr>req_params := Some p\<rparr>]"
    by (simp add: getCount_def Let_def p_def)
  moreover have "p ''cmd'' = Some (JStr ''frappe.client.get_count'')"
    and "p ''doctype'' = Some (JStr dt)"
    and "p ''filters''
         = Some (case fs of None \<Rightarrow> JArr [] | Some f \<Rightarrow> JStr (JSON_stringify js (JArr f)))"
    by (simp_all add: p_def count_params_def Let_def split: option.splits)
  moreover have "p ''cache'' = (if cache = Some True then Some (JBool True) else None)"
    and "p ''debug'' = (if debug = Some True then Some (JBool True) else None)"
    by (auto simp add: p_def count_params_def Let_def truthy_bool_def split: option.splits)
  moreover have "dom p \<subseteq> {''cmd'', ''doctype'', ''filters'', ''cache'', ''debug''}"
    by (auto simp add: p_def count_params_def Let_def dom_def split: option.splits if_splits)
  moreover have "snd (getCount js ax dt fs cache debug) = Inr (data res ''message'')"
    if "send ax ((request GET '''')\<lparr>req_params := Some p\<rparr>) = Resolved res" for res
    using that by (simp add: getCount_def Let_def p_def)
  ultimately show ?thesis
    by (intro exI [of _ p]) simp
qed

theorem getCount_request_parameters_witness:
  \<open>send (example_counting :: json AxiosInstance)
      (hd (fst (getCount reference_host (example_counting :: json AxiosInstance) ''ToDo''
         None None None)))
     = Resolved \<lparr>status = 200, statusText = ''OK'', data = [''message'' \<mapsto> JNum 42],
                 set_cookie = None\<rparr>
   \<and> snd (getCount reference_host (example_counting :: json AxiosInstance) ''ToDo''
         None None None) = Inr (Some (JNum 42))
   \<and> (\<exists>p. map req_params (fst (getCount reference_host
              (example_counting :: json AxiosInstance) ''ToDo'' None None None)) = [Some p]
        \<and> p ''filters'' = Some (JArr []) \<and> p ''cache'' = None \<and> p ''debug'' = None)
   \<and> (\<exists>p. map req_params (fst (getCount reference_host
              (example_counting :: json AxiosInstance) ''ToDo''
              (Some [JArr [JStr ''status'', JStr ''='', JStr ''Open'']]) (Some True)
              (Some False))) = [Some p]
        \<and> p ''filters'' = Some (JStr ''[["status","=","Open"]]'')
        \<and> p ''cache'' = Some (JBool True) \<and> p ''debug'' = None)\<close>
  using getCount_request_parameters [of reference_host
      "example_counting :: json AxiosInstance" "''ToDo''" None None None]
    getCount_request_parameters [of reference_host
      "example_counting :: json AxiosInstance" "''ToDo''"
      "Some [JArr [JStr ''status'', JStr ''='', JStr ''Open'']]" "Some True" "Some False"]
  by (auto simp add: reference_host_def quote_def)

section \<open>The last document\<close>

lemma getLastDoc_unfold:
  assumes "largs =
     \<lparr>filters = (case la of None \<Rightarrow> None | Some a \<Rightarrow> read (GetLastDocArgs.filters a)),
      orFilters = (case la of None \<Rightarrow> None | Some a \<Rightarrow> read (GetLastDocArgs.orFilters a)),
      orderBy = (case la of
                   None \<Rightarrow> Some \<lparr>field = ''creation'', order = Some Desc\<rparr>
                 | Some a \<Rightarrow>
                     (case GetLastDocArgs.orderBy a of
                        Missing \<Rightarrow> Some \<lparr>field = ''creation'', order = Some Desc\<rparr>
                      | Own v \<Rightarrow> v)),
      fields_arg = Some [''name''], limit = Some 1, limit_start = None,
      groupBy = None, asDict = None\<rparr>"
  shows "getLastDoc js ax dt la =
     (case getDocList js ax dt (Some largs) of
        (reqs, Inl err) \<Rightarrow> (reqs, Inl err)
      | (reqs, Inr []) \<Rightarrow> (reqs, Inr (Some (JObj [])))
      | (reqs, Inr (d # ds)) \<Rightarrow>
          (reqs @ fst (getDoc js ax dt (Some (name d))), snd (getDoc js ax dt (Some (name d)))))"
proof (cases la)
  case None
  then show ?thesis
    unfolding assms
    by (simp add: getLastDoc_def Let_def read_def split: prod.splits sum.splits list.splits)
next
  case (Some a)
  then show ?thesis
    unfolding assms
    by (cases "GetLastDocArgs.filters a"; cases "GetLastDocArgs.orFilters a";
        cases "GetLastDocArgs.orderBy a")
       (simp_all add: getLastDoc_def Let_def read_def spread_over_def
          split: prod.splits sum.splits list.splits)
qed

text \<open>
  C2, as the code has it. \<open>getLastDoc\<close> first issues the list call with limit 1 and the
  fields projecting only \<^verbatim>\<open>name\<close>. Its order is \<^verbatim>\<open>creation desc\<close> when the caller's
  arguments have no \<^verbatim>\<open>orderBy\<close> property of their own; when they have one, the order is
  built from the value of that property, and is the empty string when that value is
  \<^verbatim>\<open>undefined\<close>. When the list call finds no document, the result is the empty object and no
  other request is issued. When it finds at least one, the get call for the name of the first
  follows, and its result, the full record, is the result.
\<close>

theorem getLastDoc_list_then_get:
  assumes largs: "largs =
     \<lparr>filters = (case la of None \<Rightarrow> None | Some a \<Rightarrow> read (GetLastDocArgs.filters a)),
      orFilters = (case la of None \<Rightarrow> None | Some a \<Rightarrow> read (GetLastDocArgs.orFilters a)),
      orderBy = (case la of
                   None \<Rightarrow> Some \<lparr>field = ''creation'', order = Some Desc\<rparr>
                 | Some a \<Rightarrow>
                     (case GetLastDocArgs.orderBy a of
                        Missing \<Rightarrow> Some \<lparr>field = ''creation'', order = Some Desc\<rparr>
                      | Own v \<Rightarrow> v)),
      fields_arg = Some [''name''], limit = Some 1, limit_start = None,
      groupBy = None, asDict = None\<rparr>"
    and lreq: "lreq = hd (fst (getDocList js ax dt (Some largs)))"
  shows "fst (getDocList js ax dt (Some largs)) = [lreq]
     \<and> req_method lreq = GET \<and> req_url lreq = ''/api/resource/'' @ dt
     \<and> (\<exists>p. req_params lreq = Some p
           \<and> p ''limit'' = Some (JNum 1)
           \<and> p ''fields'' = Some (JStr (JSON_stringify js (JArr [JStr ''name''])))
           \<and> (la = None \<or> (\<exists>a. la = Some a \<and> GetLastDocArgs.orderBy a = Missing) \<longrightarrow>
                 p ''order_by'' = Some (JStr ''creation desc''))
           \<and> (\<forall>a v. la = Some a \<and> GetLastDocArgs.orderBy a = Own v \<longrightarrow>
                 p ''order_by'' = Some (JStr (orderByString v))))
     \<and> (send_list ax lreq = ListResolved [] \<longrightarrow>
           getLastDoc js ax dt la = ([lreq], Inr (Some (JObj []))))
     \<and> (\<forall>d ds. send_list ax lreq = ListResolved (d # ds) \<longrightarrow>
           fst (getLastDoc js ax dt la)
             = [lreq, request GET (''/api/resource/'' @ dt @ ''/'' @ encodeURIComponent js (name d))]
           \<and> fst (getDoc js ax dt (Some (name d)))
             = [request GET (''/api/resource/'' @ dt @ ''/'' @ encodeURIComponent js (name d))]
           \<and> snd (getLastDoc js ax dt la) = snd (getDoc js ax dt (Some (name d)))
           \<and> (\<forall>res. send ax (request GET (''/api/resource/'' @ dt @ ''/''
                                  @ encodeURIComponent js (name d))) = Resolved res \<longrightarrow>
                 snd (getLastDoc js ax dt la) = Inr (data res ''data'')))"
proof -
  have l: "getDocList js ax dt (Some largs)
      = ([lreq], case send_list ax lreq of
                   ListResolved ds \<Rightarrow> Inr ds
                 | ListRejected r \<Rightarrow>
                     Inl (catch_fixed ''There was an error while fetching the documents.'' r))"
    by (simp add: getDocList_def Let_def lreq)
  have g: "getDoc js ax dt (Some n)
      = ([request GET (''/api/resource/'' @ dt @ ''/'' @ encodeURIComponent js n)],
         case send ax (request GET (''/api/resource/'' @ dt @ ''/'' @ encodeURIComponent js n)) of
           Resolved res \<Rightarrow> Inr (data res ''data'')
         | Rejected r \<Rightarrow> Inl (catch_fixed ''There was an error while fetching the document.'' r))"
    for n
    by (simp add: getDoc_def Let_def)
  have shape: "req_method lreq = GET \<and> req_url lreq = ''/api/resource/'' @ dt
      \<and> req_params lreq = Some (list_params js (Some largs))"
    by (simp add: lreq getDocList_def Let_def request_def)
  have params: "list_params js (Some largs) ''limit'' = Some (JNum 1)
      \<and> list_params js (Some largs) ''fields''
          = Some (JStr (JSON_stringify js (JArr [JStr ''name''])))"
    by (simp add: largs list_params_def)
  have dflt: "list_params js (Some largs) ''order_by'' = Some (JStr ''creation desc'')"
    if "la = None \<or> (\<exists>a. la = Some a \<and> GetLastDocArgs.orderBy a = Missing)"
    using that by (auto simp add: largs list_params_def orderByString_def)
  have own: "list_params js (Some largs) ''order_by'' = Some (JStr (orderByString v))"
    if "la = Some a \<and> GetLastDocArgs.orderBy a = Own v" for a v
    using that by (simp add: largs list_params_def)
  have empty: "getLastDoc js ax dt la = ([lreq], Inr (Some (JObj [])))"
    if "send_list ax lreq = ListResolved []"
    using that by (simp add: getLastDoc_unfold [OF largs] l)
  have some: "fst (getLastDoc js ax dt la)
             = [lreq, request GET (''/api/resource/'' @ dt @ ''/'' @ encodeURIComponent js (name d))]
           \<and> snd (getLastDoc js ax dt la) = snd (getDoc js ax dt (Some (name d)))"
    if "send_list ax lreq = ListResolved (d # ds)" for d ds
    using that by (simp add: getLastDoc_unfold [OF largs] l g)
  have p: "\<exists>p. req_params lreq = Some p
           \<and> p ''limit'' = Some (JNum 1)
           \<and> p ''fields'' = Some (JStr (JSON_stringify js (JArr [JStr ''name''])))
           \<and> (la = None \<or> (\<exists>a. la = Some a \<and> GetLastDocArgs.orderBy a = Missing) \<longrightarrow>
                 p ''order_by'' = Some (JStr ''creation desc''))
           \<and> (\<forall>a v. la = Some a \<and> GetLastDocArgs.orderBy a = Own v \<longrightarrow>
                 p ''order_by'' = Some (JStr (orderByString v)))"
    using shape params dflt own by blast
  have get: "fst (getLastDoc js ax dt la)
             = [lreq, request GET (''/api/resource/'' @ dt @ ''/'' @ encodeURIComponent js (name d))]
           \<and> fst (getDoc js ax dt (Some (name d)))
             = [request GET (''/api/resource/'' @ dt @ ''/'' @ encodeURIComponent js (name d))]
           \<and> snd (getLastDoc js ax dt la) = snd (getDoc js ax dt (Some (name d)))
           \<and> (\<forall>res. send ax (request GET (''/api/resource/'' @ dt @ ''/''
                                  @ encodeURIComponent js (name d))) = Resolved res \<longrightarrow>
                 snd (getLastDoc js ax dt la) = Inr (data res ''data''))"
    if "send_list ax lreq = ListResolved (d # ds)" for d ds
    using some [OF that] by (simp add: g)
  show ?thesis
    apply (intro conjI)
         apply (simp add: l)
        apply (simp add: shape)
       apply (simp add: shape)
      apply (rule p)
     apply (use empty in blast)
    apply (use get in blast)
    done
qed

theorem getLastDoc_list_then_get_witness:
  "send_list (example_counting :: name_item AxiosInstance)
      (hd (fst (getLastDoc reference_host example_counting ''ToDo'' None))) = ListResolved []
   \<and> map req_url (fst (getLastDoc reference_host example_counting ''ToDo'' None))
       = [''/api/resource/ToDo'']
   \<and> snd (getLastDoc reference_host example_counting ''ToDo'' None) = Inr (Some (JObj []))
   \<and> send_list example_one_todo
        (hd (fst (getLastDoc reference_host example_one_todo ''ToDo'' None)))
       = ListResolved [\<lparr>name = ''TD 7''\<rparr>]
   \<and> map req_url (fst (getLastDoc reference_host example_one_todo ''ToDo'' None))
       = [''/api/resource/ToDo'', ''/api/resource/ToDo/TD%207'']
   \<and> snd (getLastDoc reference_host example_one_todo ''ToDo'' None)
       = Inr (Some (JObj [(''name'', JStr ''TD 7''), (''status'', JStr ''Open'')]))
   \<and> the (req_params (hd (fst (getLastDoc reference_host example_one_todo ''ToDo'' None))))
        ''order_by'' = Some (JStr ''creation desc'')
   \<and> the (req_params (hd (fst (getLastDoc reference_host example_one_todo ''ToDo''
        (Some \<lparr>GetLastDocArgs.filters = Missing, GetLastDocArgs.orFilters = Missing,
                GetLastDocArgs.orderBy = Missing\<rparr>)))))
        ''order_by'' = Some (JStr ''creation desc'')
   \<and> the (req_params (hd (fst (getLastDoc reference_host example_one_todo ''ToDo''
        (Some \<lparr>GetLastDocArgs.filters = Missing, GetLastDocArgs.orFilters = Missing,
                GetLastDocArgs.orderBy = Own (Some \<lparr>field = ''modified'', order = None\<rparr>)\<rparr>)))))
        ''order_by'' = Some (JStr ''modified asc'')
   \<and> the (req_params (hd (fst (getLastDoc reference_host example_one_todo ''ToDo''
        (Some \<lparr>GetLastDocArgs.filters = Missing, GetLastDocArgs.orFilters = Missing,
                GetLastDocArgs.orderBy = Own None\<rparr>)))))
        ''order_by'' = Some (JStr '''')"
  using getLastDoc_list_then_get [of _ None _ reference_host
      "example_counting :: name_item AxiosInstance" "''ToDo''", OF refl refl]
    getLastDoc_list_then_get [of _ None _ reference_host example_one_todo "''ToDo''",
      OF refl refl]
    getLastDoc_list_then_get [of _
      "Some \<lparr>GetLastDocArgs.filters = Missing, GetLastDocArgs.orFilters = Missing,
              GetLastDocArgs.orderBy = Missing\<rparr>" _ reference_host example_one_todo
      "''ToDo''", OF refl refl]
    getLastDoc_list_then_get [of _
      "Some \<lparr>GetLastDocArgs.filters = Missing, GetLastDocArgs.orFilters = Missing,
              GetLastDocArgs.orderBy = Own (Some \<lparr>field = ''modified'', order = None\<rparr>)\<rparr>"
      _ reference_host example_one_todo "''ToDo''", OF refl refl]
    getLastDoc_list_then_get [of _
      "Some \<lparr>GetLastDocArgs.filters = Missing, GetLastDocArgs.orFilters = Missing,
              GetLastDocArgs.orderBy = Own None\<rparr>"
      _ reference_host example_one_todo "''ToDo''", OF refl refl]
  by (simp add: getLastDoc_def getDocList_def getDoc_def request_def reference_host_def
      percent_encode_def unreserved_def list_params_def orderByString_def read_def
      spread_over_def Let_def)

text \<open>
  C2 as stated fails: a caller that passes \<^verbatim>\<open>{ orderBy: undefined }\<close> gives no order of its
  own, yet the spread copies the property over the default, and the list call, which finds a
  document, goes out with the empty \<^verbatim>\<open>order_by\<close>, not with \<^verbatim>\<open>creation desc\<close>.
\<close>

theorem getLastDoc_order_counterexample:
  "map req_url (fst (getLastDoc reference_host example_one_todo ''ToDo''
        (Some \<lparr>GetLastDocArgs.filters = Missing, GetLastDocArgs.orFilters = Missing,
                GetLastDocArgs.orderBy = Own None\<rparr>)))
     = [''/api/resource/ToDo'', ''/api/resource/ToDo/TD%207'']
   \<and> the (req_params (hd (fst (getLastDoc reference_host example_one_todo ''ToDo''
        (Some \<lparr>GetLastDocArgs.filters = Missing, GetLastDocArgs.orFilters = Missing,
                GetLastDocArgs.orderBy = Own None\<rparr>)))))
        ''order_by'' = Some (JStr '''')
   \<and> Some (JStr '''') \<noteq> Some (JStr ''creation desc'')"
  by (simp add: getLastDoc_def getDocList_def getDoc_def request_def reference_host_def
      percent_encode_def unreserved_def list_params_def orderByString_def read_def
      spread_over_def Let_def)

section \<open>The upload form\<close>











end
